theory Spec2Isabelle
  imports Main "HOL-Library.AList" "HOL-Library.Sublist"
begin

section \<open>sortie: a shallow embedding of \<^verbatim>\<open>sortie.py\<close>\<close>

text \<open>
  The script relocates the mp3 objects of one S3 bucket: it lists the source keys, downloads
  them into a cache directory, reads their tags, renders a destination key from a template
  and uploads each cached file under that key.

  Python strings are modelled as \<^typ>\<open>string\<close> (the bytes of their UTF-8 encoding).
  A function that touches the outside world takes the \<open>world\<close> and returns its result together
  with the new world; a raised exception is the value \<open>Inl e\<close>, and the world it is raised in
  is kept, as Python keeps the effects that precede a raise.

  The log lines (console and log file) are not part of the modelled state: a call of a
  \<open>Logger\<close> changes nothing below. Constructing a \<open>Logger\<close> is modelled, since it can raise.
\<close>

subsection \<open>Exceptions\<close>

datatype exn =
    ConfigFileNotPresent | ConfigMissingKey | ConfigMissingAWSCLIProfile
  | FeatureNotImplemented | InvalidPermissions | InvalidValue
  | AttributeError | KeyError | TypeError | ValueError | OSError
  | ClientError | ParamValidationError
  | OtherError string

subsection \<open>Data\<close>

text \<open>A parsed JSON document, as \<^verbatim>\<open>json.load\<close> returns it.\<close>

datatype json =
    JNull | JBool bool | JNum int | JStr string
  | JArr "json list" | JObj "(string \<times> json) list"

text \<open>
  A directory: its regular files (name and content) and its subdirectories, each in the
  order in which the operating system lists them.
\<close>

datatype dirtree = Dir "(string \<times> string) list" "(string \<times> dirtree) list"

text \<open>The three tags the script reads off a \<^verbatim>\<open>TinyTag\<close> object; an absent tag is \<^verbatim>\<open>None\<close>.\<close>

record TinyTag =
  artist :: "string option"
  album :: "string option"
  title :: "string option"

text \<open>
  A \<^verbatim>\<open>Config\<close> object. The attributes \<open>log_file\<close> and \<open>track_list\<close> are only assigned under a
  condition; \<open>None\<close> is the attribute that was never assigned.
\<close>

record Config =
  environment :: string
  bucket :: string
  log_to_file :: bool
  max_logging_level :: int
  log_file :: "string option"
  ingestion_mode :: string
  track_list :: "string option"
  cache_dir :: string
  sort_mask :: string
  clean_up :: bool
  persistent_cache :: bool

record Logger =
  mask_name :: string
  verbosity :: int
  logger_to_file :: bool
  logger_file :: string

text \<open>An \<^verbatim>\<open>S3io\<close> object keeps a reference to the configuration object, not a copy.\<close>

record S3io =
  s3_config :: nat
  s3_slog :: Logger

record TrackLister =
  tl_config :: nat
  tl_slog :: Logger
  tl_mode :: string
  tracks :: "string list"

record TrackConverter =
  tc_slog :: Logger
  local_path :: string
  tc_tags :: TinyTag
  target_path :: string

text \<open>
  The calls the script makes on the boto3 client, with their arguments in the order of the
  source: \<open>ListObjects bucket\<close>, \<open>Download bucket key local_file\<close>,
  \<open>Upload local_file bucket key\<close>, \<open>Delete bucket key\<close>.
\<close>

datatype call =
    ListObjects string
  | Download string string string
  | Upload string string string
  | Delete string string

subsection \<open>The world\<close>

text \<open>
  What the script reads from its surroundings, and the state it changes.

  \<^item> \<open>conf_file\<close>: \<open>None\<close> when \<^verbatim>\<open>conf/sortie.ini\<close> does not exist; otherwise what
    \<^verbatim>\<open>parser.read\<close> yields: an exception, or the value of each header and key.
  \<^item> \<open>py_int\<close>: Python's \<^verbatim>\<open>int()\<close> on a string, \<open>None\<close> where it raises \<^verbatim>\<open>ValueError\<close>.
  \<^item> \<open>mkdir_fault\<close>: the exception \<^verbatim>\<open>os.mkdir\<close> raises, if any.
  \<^item> \<open>profiles\<close>: the profiles of the AWS CLI configuration.
  \<^item> \<open>manifest\<close>: what opening a path and \<^verbatim>\<open>json.load\<close> yield.
  \<^item> \<open>listing\<close>: the pages of \<^verbatim>\<open>list_objects_v2\<close>; each page is its \<^verbatim>\<open>Contents\<close> keys,
    or \<open>None\<close> when the page has no \<^verbatim>\<open>Contents\<close> entry (an empty bucket).
  \<^item> \<open>fault\<close>: whether the store makes a client call fail, given the calls made so far.
  \<^item> \<open>tinytag\<close>: \<^verbatim>\<open>TinyTag.get\<close> on the content of a file.
  \<^item> \<open>jinja_other\<close>: Jinja2 on the templates that the model of \<open>render_simple\<close> below does
    not cover.
  \<^item> \<open>rmtree_fault\<close>: \<open>None\<close> when \<^verbatim>\<open>shutil.rmtree\<close> succeeds; otherwise the exception it
    raises and what it leaves of the directory.
  \<^item> \<open>heap\<close>, \<open>next_ref\<close>: the \<^verbatim>\<open>Config\<close> objects, by reference.
  \<^item> \<open>fs\<close>: the local directories, by the path the script names them with.
  \<^item> \<open>objects\<close>: the objects of the bucket, by key.
  \<^item> \<open>trace\<close>: the client calls made so far, oldest first.
\<close>

record world =
  conf_file :: "(exn + (string \<Rightarrow> string \<Rightarrow> string option)) option"
  py_int :: "string \<Rightarrow> int option"
  mkdir_fault :: "exn option"
  profiles :: "string list"
  manifest :: "string \<Rightarrow> exn + json"
  listing :: "string list option list"
  fault :: "call list \<Rightarrow> call \<Rightarrow> exn option"
  tinytag :: "string \<Rightarrow> exn + TinyTag"
  jinja_other :: "string \<Rightarrow> TinyTag \<Rightarrow> exn + string"
  rmtree_fault :: "(exn \<times> dirtree option) option"
  heap :: "nat \<Rightarrow> Config"
  next_ref :: nat
  fs :: "string \<Rightarrow> dirtree option"
  objects :: "string \<Rightarrow> string option"
  trace :: "call list"

type_synonym 'a io = "world \<Rightarrow> (exn + 'a) \<times> world"

text \<open>Sequencing: the second statement runs in the world the first one left, unless it raised.\<close>

definition seq :: "'a io \<Rightarrow> ('a \<Rightarrow> 'b io) \<Rightarrow> 'b io" where
  "seq m f w = (case m w of (Inl e, w') \<Rightarrow> (Inl e, w') | (Inr a, w') \<Rightarrow> f a w')"

definition pure :: "exn + 'a \<Rightarrow> 'a io" where
  "pure r w = (r, w)"

subsection \<open>Strings and paths\<close>

definition endswith :: "string \<Rightarrow> string \<Rightarrow> bool" where
  "endswith s suf = (length suf \<le> length s \<and> drop (length s - length suf) s = suf)"

definition lower_char :: "char \<Rightarrow> char" where
  "lower_char c =
     (let n = (of_char c :: nat) in if 65 \<le> n \<and> n \<le> 90 then char_of (n + 32) else c)"

text \<open>The directory and the file name of \<^verbatim>\<open>"{0}/{1}"\<close>: the path is cut at its last slash.\<close>

definition dirname :: "string \<Rightarrow> string" where
  "dirname p = rev (drop 1 (dropWhile (\<lambda>c. c \<noteq> CHR ''/'') (rev p)))"

definition basename :: "string \<Rightarrow> string" where
  "basename p = rev (takeWhile (\<lambda>c. c \<noteq> CHR ''/'') (rev p))"

definition read_file :: "world \<Rightarrow> string \<Rightarrow> string option" where
  "read_file w p =
     (case fs w (dirname p) of
        None \<Rightarrow> None
      | Some (Dir fls subs) \<Rightarrow> map_of fls (basename p))"

text \<open>
  Writing a file needs its directory; a subdirectory of the same name is in the way. A file
  of the same name is replaced.
\<close>

definition write_file :: "string \<Rightarrow> string \<Rightarrow> unit io" where
  "write_file p content w =
     (case fs w (dirname p) of
        None \<Rightarrow> (Inl OSError, w)
      | Some (Dir fls subs) \<Rightarrow>
          if basename p \<in> fst ` set subs then (Inl OSError, w)
          else (Inr (),
                w\<lparr>fs := (fs w)(dirname p \<mapsto> Dir (AList.update (basename p) content fls) subs)\<rparr>))"

text \<open>
  \<^verbatim>\<open>os.walk\<close>, top down: the file names of the directory itself, then those of each
  subdirectory in turn.
\<close>

fun walk :: "dirtree \<Rightarrow> string list list" where
  "walk (Dir fls subs) = map fst fls # concat (map (\<lambda>p. walk (snd p)) subs)"

subsection \<open>Config\<close>

text \<open>\<^verbatim>\<open>distutils.util.strtobool\<close>, turned into a \<^verbatim>\<open>bool\<close>.\<close>

definition str2bool :: "string \<Rightarrow> exn + bool" where
  "str2bool val =
     (let v = map lower_char val in
      if v \<in> set [''y'', ''yes'', ''t'', ''true'', ''on'', ''1''] then Inr True
      else if v \<in> set [''n'', ''no'', ''f'', ''false'', ''off'', ''0''] then Inr False
      else Inl ValueError)"

definition sane_get ::
  "(string \<Rightarrow> string \<Rightarrow> string option) \<Rightarrow> string \<Rightarrow> string \<Rightarrow> exn + string" where
  "sane_get parser header key =
     (case parser header key of None \<Rightarrow> Inl ConfigMissingKey | Some val \<Rightarrow> Inr val)"

definition to_int :: "world \<Rightarrow> string \<Rightarrow> exn + int" where
  "to_int w s = (case py_int w s of None \<Rightarrow> Inl ValueError | Some n \<Rightarrow> Inr n)"

definition mkdir :: "string \<Rightarrow> unit io" where
  "mkdir p w =
     (case mkdir_fault w of
        Some e \<Rightarrow> (Inl e, w)
      | None \<Rightarrow> (Inr (), w\<lparr>fs := (fs w)(p \<mapsto> Dir [] [])\<rparr>))"

definition new_config :: "Config \<Rightarrow> nat io" where
  "new_config c w =
     (Inr (next_ref w), w\<lparr>heap := (heap w)(next_ref w := c), next_ref := Suc (next_ref w)\<rparr>)"

text \<open>
  \<^verbatim>\<open>Config.__init__\<close>. The attributes are read in the order of the source; \<open>log_file\<close> is
  assigned only if \<open>log_to_file\<close> holds, \<open>track_list\<close> only in mode \<^verbatim>\<open>track_list\<close>, and the
  cache directory is created if it does not exist.
\<close>

definition Config_init :: "nat io" where
  "Config_init w =
     (case conf_file w of
        None \<Rightarrow> (Inl ConfigFileNotPresent, w)
      | Some (Inl e) \<Rightarrow> (Inl e, w)
      | Some (Inr parser) \<Rightarrow>
         (seq (pure (sane_get parser ''aws'' ''environment'')) (\<lambda>env.
          seq (pure (sane_get parser ''bucket'' ''name'')) (\<lambda>bkt.
          seq (pure (sane_get parser ''logging'' ''log_to_file'')) (\<lambda>ltf_s.
          seq (pure (str2bool ltf_s)) (\<lambda>ltf.
          seq (pure (sane_get parser ''logging'' ''logging_level'')) (\<lambda>lvl_s.
          seq (pure (to_int w lvl_s)) (\<lambda>lvl.
          seq (if ltf then (\<lambda>w. case sane_get parser ''logging'' ''log_file'' of
                                   Inl e \<Rightarrow> (Inl e, w) | Inr v \<Rightarrow> (Inr (Some v), w))
               else pure (Inr None)) (\<lambda>lf.
          seq (pure (sane_get parser ''ingestion'' ''mode'')) (\<lambda>mode.
          seq (if mode = ''track_list''
               then (\<lambda>w. case sane_get parser ''ingestion'' ''track_list'' of
                            Inl e \<Rightarrow> (Inl e, w) | Inr v \<Rightarrow> (Inr (Some v), w))
               else pure (Inr None)) (\<lambda>tl.
          seq (pure (sane_get parser ''cache'' ''directory'')) (\<lambda>cdir.
          seq (\<lambda>w. if fs w cdir = None then mkdir cdir w else (Inr (), w)) (\<lambda>_.
          seq (pure (sane_get parser ''targeting'' ''sort_mask'')) (\<lambda>mask.
          seq (pure (sane_get parser ''targeting'' ''clean_up'')) (\<lambda>cu_s.
          seq (pure (str2bool cu_s)) (\<lambda>cu.
          seq (pure (sane_get parser ''cache'' ''persistent'')) (\<lambda>pc_s.
          seq (pure (str2bool pc_s)) (\<lambda>pc.
          new_config \<lparr>environment = env, bucket = bkt, log_to_file = ltf,
                      max_logging_level = lvl, log_file = lf, ingestion_mode = mode,
                      track_list = tl, cache_dir = cdir, sort_mask = mask,
                      clean_up = cu, persistent_cache = pc\<rparr>))))))))))))))))) w)"

subsection \<open>Logger\<close>

text \<open>
  \<^verbatim>\<open>Logger.__init__\<close> reads \<^verbatim>\<open>config.log_file\<close> whatever \<open>log_to_file\<close> says; reading an
  attribute that was never assigned raises \<^verbatim>\<open>AttributeError\<close>.
\<close>

definition Logger_init :: "string \<Rightarrow> nat \<Rightarrow> Logger io" where
  "Logger_init name config w =
     (case log_file (heap w config) of
        None \<Rightarrow> (Inl AttributeError, w)
      | Some f \<Rightarrow>
          (Inr \<lparr>mask_name = name, verbosity = max_logging_level (heap w config),
                logger_to_file = log_to_file (heap w config), logger_file = f\<rparr>, w))"

subsection \<open>S3io\<close>

text \<open>
  \<^verbatim>\<open>boto3.Session\<close> raises \<^verbatim>\<open>ProfileNotFound\<close> for a profile that is not configured; the
  constructor turns it into \<^verbatim>\<open>ConfigMissingAWSCLIProfile\<close>.
\<close>

definition S3io_init :: "nat \<Rightarrow> S3io io" where
  "S3io_init config =
     seq (Logger_init ''S3 Orchestrator'' config) (\<lambda>slog w.
       if environment (heap w config) \<in> set (profiles w)
       then (Inr \<lparr>s3_config = config, s3_slog = slog\<rparr>, w)
       else (Inl ConfigMissingAWSCLIProfile, w))"

text \<open>The script's client call is recorded, then the store decides.\<close>

definition issue :: "call \<Rightarrow> unit io" where
  "issue c w =
     (case fault w (trace w) c of
        Some e \<Rightarrow> (Inl e, w\<lparr>trace := trace w @ [c]\<rparr>)
      | None \<Rightarrow> (Inr (), w\<lparr>trace := trace w @ [c]\<rparr>))"

text \<open>
  The loop over the pages: \<^verbatim>\<open>page['Contents']\<close> raises \<^verbatim>\<open>KeyError\<close> on a page without
  that entry.
\<close>

fun collect_pages :: "string list \<Rightarrow> string list option list \<Rightarrow> exn + string list" where
  "collect_pages files [] = Inr files"
| "collect_pages files (None # pages) = Inl KeyError"
| "collect_pages files (Some keys # pages) = collect_pages (files @ keys) pages"

text \<open>Only \<^verbatim>\<open>ClientError\<close> is caught and replaced by \<^verbatim>\<open>InvalidPermissions\<close>.\<close>

definition list_bucket_contents :: "S3io \<Rightarrow> string \<Rightarrow> string list io" where
  "list_bucket_contents self bucket_name w =
     (case issue (ListObjects bucket_name) w of
        (Inl e, w') \<Rightarrow> (Inl (if e = ClientError then InvalidPermissions else e), w')
      | (Inr _, w') \<Rightarrow>
          (case collect_pages [] (listing w') of
             Inl e \<Rightarrow> (Inl (if e = ClientError then InvalidPermissions else e), w')
           | Inr files \<Rightarrow> (Inr files, w')))"

text \<open>
  The client refuses an empty key before it sends anything
  (\<^verbatim>\<open>ParamValidationError\<close>, which is not a \<^verbatim>\<open>ClientError\<close>); a missing object is a
  \<^verbatim>\<open>ClientError\<close>.
\<close>

definition client_download :: "string \<Rightarrow> string \<Rightarrow> string \<Rightarrow> unit io" where
  "client_download bkt key filename w =
     (if key = [] then (Inl ParamValidationError, w\<lparr>trace := trace w @ [Download bkt key filename]\<rparr>)
      else seq (issue (Download bkt key filename)) (\<lambda>_ w.
        case objects w key of
          None \<Rightarrow> (Inl ClientError, w)
        | Some content \<Rightarrow> write_file filename content w) w)"

definition client_upload :: "string \<Rightarrow> string \<Rightarrow> string \<Rightarrow> unit io" where
  "client_upload filename bkt key w =
     (if key = [] then (Inl ParamValidationError, w\<lparr>trace := trace w @ [Upload filename bkt key]\<rparr>)
      else seq (issue (Upload filename bkt key)) (\<lambda>_ w.
        case read_file w filename of
          None \<Rightarrow> (Inl OSError, w)
        | Some content \<Rightarrow> (Inr (), w\<lparr>objects := (objects w)(key \<mapsto> content)\<rparr>)) w)"

definition client_delete_object :: "string \<Rightarrow> string \<Rightarrow> unit io" where
  "client_delete_object bkt key w =
     (if key = [] then (Inl ParamValidationError, w\<lparr>trace := trace w @ [Delete bkt key]\<rparr>)
      else seq (issue (Delete bkt key)) (\<lambda>_ w.
        (Inr (), w\<lparr>objects := (objects w)(key := None)\<rparr>)) w)"

definition download_file :: "S3io \<Rightarrow> string \<Rightarrow> string \<Rightarrow> unit io" where
  "download_file self remote_filename local_filename w =
     (case client_download (bucket (heap w (s3_config self))) remote_filename local_filename w of
        (Inl e, w') \<Rightarrow> (Inl (if e = ClientError then InvalidPermissions else e), w')
      | (Inr u, w') \<Rightarrow> (Inr u, w'))"

text \<open>\<^verbatim>\<open>upload_file\<close> and \<^verbatim>\<open>delete_file\<close> have no \<^verbatim>\<open>try\<close>: what the client raises is what they raise.\<close>

definition upload_file :: "S3io \<Rightarrow> string \<Rightarrow> string \<Rightarrow> unit io" where
  "upload_file self local_filename object_name w =
     client_upload local_filename (bucket (heap w (s3_config self))) object_name w"

definition delete_file :: "S3io \<Rightarrow> string \<Rightarrow> unit io" where
  "delete_file self object_name w =
     client_delete_object (bucket (heap w (s3_config self))) object_name w"

subsection \<open>TrackLister\<close>

text \<open>
  What a \<^verbatim>\<open>for\<close> loop visits in a JSON value: the elements of an array, the characters of
  a string, the keys of an object (each once, at its first place); other values are not
  iterable. No single character ends in \<^verbatim>\<open>.mp3\<close>, so that a character is one byte here
  makes no difference.
\<close>

definition py_iter :: "json \<Rightarrow> exn + json list" where
  "py_iter v =
     (case v of
        JArr xs \<Rightarrow> Inr xs
      | JStr s \<Rightarrow> Inr (map (\<lambda>c. JStr [c]) s)
      | JObj kvs \<Rightarrow> Inr (map JStr (rev (remdups (rev (map fst kvs)))))
      | _ \<Rightarrow> Inl TypeError)"

text \<open>\<^verbatim>\<open>data['input']\<close>: of a repeated key of an object, \<^verbatim>\<open>json.load\<close> keeps the last value.\<close>

definition py_getitem :: "json \<Rightarrow> string \<Rightarrow> exn + json" where
  "py_getitem data key =
     (case data of
        JObj kvs \<Rightarrow> (case map_of (rev kvs) key of None \<Rightarrow> Inl KeyError | Some v \<Rightarrow> Inr v)
      | _ \<Rightarrow> Inl TypeError)"

text \<open>The loop of \<^verbatim>\<open>ingest_trackfile\<close>; only a string has \<^verbatim>\<open>endswith\<close>.\<close>

fun trackfile_loop :: "string list \<Rightarrow> json list \<Rightarrow> exn + string list" where
  "trackfile_loop found [] = Inr found"
| "trackfile_loop found (JStr track # rest) =
     trackfile_loop (if endswith track ''.mp3'' then found @ [track] else found) rest"
| "trackfile_loop found (_ # rest) = Inl AttributeError"

definition ingest_trackfile :: "string \<Rightarrow> string list io" where
  "ingest_trackfile filepath w =
     (case manifest w filepath of
        Inl e \<Rightarrow> (Inl e, w)
      | Inr data \<Rightarrow>
          (case py_getitem data ''input'' of
             Inl e \<Rightarrow> (Inl e, w)
           | Inr inp \<Rightarrow>
               (case py_iter inp of
                  Inl e \<Rightarrow> (Inl e, w)
                | Inr items \<Rightarrow> (trackfile_loop [] items, w))))"

text \<open>The two loops of \<^verbatim>\<open>ingest_cache\<close>: over the directories of the walk, and over their files.\<close>

fun cache_files_loop :: "string list \<Rightarrow> string list \<Rightarrow> string list" where
  "cache_files_loop found [] = found"
| "cache_files_loop found (file # files) =
     cache_files_loop (if endswith file ''.mp3'' then found @ [file] else found) files"

fun cache_walk_loop :: "string list \<Rightarrow> string list list \<Rightarrow> string list" where
  "cache_walk_loop found [] = found"
| "cache_walk_loop found (files # later) = cache_walk_loop (cache_files_loop found files) later"

text \<open>\<^verbatim>\<open>os.walk\<close> of a directory that does not exist yields nothing.\<close>

definition ingest_cache :: "world \<Rightarrow> string \<Rightarrow> string list" where
  "ingest_cache w directory =
     (case fs w directory of None \<Rightarrow> [] | Some d \<Rightarrow> cache_walk_loop [] (walk d))"

fun s3_loop :: "string list \<Rightarrow> string list \<Rightarrow> string list" where
  "s3_loop found [] = found"
| "s3_loop found (item # contents) =
     s3_loop (if \<not> endswith item ''/'' \<and> endswith item ''.mp3'' then found @ [item] else found)
       contents"

text \<open>Without the keyword argument \<^verbatim>\<open>orchestrator\<close> the method is called on \<^verbatim>\<open>None\<close>.\<close>

definition ingest_s3 :: "S3io option \<Rightarrow> string list io" where
  "ingest_s3 orchestrator w =
     (case orchestrator of
        None \<Rightarrow> (Inl AttributeError, w)
      | Some orch \<Rightarrow>
          seq (list_bucket_contents orch (bucket (heap w (s3_config orch))))
            (\<lambda>contents. pure (Inr (s3_loop [] contents))) w)"

definition TrackLister_init :: "nat \<Rightarrow> S3io option \<Rightarrow> TrackLister io" where
  "TrackLister_init config orchestrator =
     seq (Logger_init ''TrackLister'' config) (\<lambda>slog w.
       seq (if ingestion_mode (heap w config) = ''track_list'' then
              (\<lambda>w. case track_list (heap w config) of
                      None \<Rightarrow> (Inl AttributeError, w)
                    | Some list_file \<Rightarrow> ingest_trackfile list_file w)
            else if ingestion_mode (heap w config) = ''dynamic'' then ingest_s3 orchestrator
            else if ingestion_mode (heap w config) = ''cache'' then
              (\<lambda>w. (Inr (ingest_cache w (cache_dir (heap w config))), w))
            else pure (Inl InvalidValue))
         (\<lambda>trs. pure (Inr \<lparr>tl_config = config, tl_slog = slog,
                             tl_mode = ingestion_mode (heap w config), tracks = trs\<rparr>)) w)"

subsection \<open>TrackConverter\<close>

text \<open>
  Jinja2 is modelled on the templates made of literal text and of \<^verbatim>\<open>{{ name }}\<close> with one of
  the three names the script passes to \<^verbatim>\<open>render\<close>, the name alone between the braces but for
  spaces. A template with a block or comment delimiter, with another expression, with an
  unclosed \<^verbatim>\<open>{{\<close> or with a line break lies outside this model (\<open>None\<close>).
\<close>

datatype piece = Text string | Var string

definition strip_spaces :: "string \<Rightarrow> string" where
  "strip_spaces s =
     rev (dropWhile (\<lambda>c. c = CHR '' '') (rev (dropWhile (\<lambda>c. c = CHR '' '') s)))"

definition var_name :: "string \<Rightarrow> string option" where
  "var_name inner =
     (if strip_spaces inner \<in> set [''artist'', ''album'', ''title'']
      then Some (strip_spaces inner) else None)"

text \<open>
  The lexer, left to right: \<open>inside\<close> says whether a \<^verbatim>\<open>{{\<close> is open, \<open>acc\<close> holds the
  characters of the current piece, last first.
\<close>

fun scan :: "bool \<Rightarrow> string \<Rightarrow> string \<Rightarrow> piece list option" where
  "scan False acc [] = Some [Text (rev acc)]"
| "scan True acc [] = None"
| "scan False acc (c # cs) =
     (if c = CHR ''{'' then
        (case cs of
           [] \<Rightarrow> Some [Text (rev (c # acc))]
         | d # ds \<Rightarrow>
             if d = CHR ''{'' then map_option (Cons (Text (rev acc))) (scan True [] ds)
             else if d = CHR ''%'' \<or> d = CHR ''#'' then None
             else scan False (c # acc) cs)
      else if c = CHR 0x0A \<or> c = CHR 0x0D then None
      else scan False (c # acc) cs)"
| "scan True acc (c # cs) =
     (if c = CHR ''}'' then
        (case cs of
           [] \<Rightarrow> None
         | d # ds \<Rightarrow>
             if d = CHR ''}'' then
               (case var_name (rev acc) of
                  None \<Rightarrow> None
                | Some v \<Rightarrow> map_option (Cons (Var v)) (scan False [] ds))
             else scan True (c # acc) cs)
      else scan True (c # acc) cs)"

text \<open>\<^verbatim>\<open>str\<close> of a tag: Jinja2 prints the value it is given, and \<^verbatim>\<open>None\<close> prints as its name.\<close>

definition py_str :: "string option \<Rightarrow> string" where
  "py_str v = (case v of None \<Rightarrow> ''None'' | Some s \<Rightarrow> s)"

definition lookup_var :: "TinyTag \<Rightarrow> string \<Rightarrow> string option" where
  "lookup_var tags v =
     (if v = ''artist'' then artist tags else if v = ''album'' then album tags else title tags)"

fun piece_text :: "TinyTag \<Rightarrow> piece \<Rightarrow> string" where
  "piece_text tags (Text s) = s"
| "piece_text tags (Var v) = py_str (lookup_var tags v)"

definition render_simple :: "string \<Rightarrow> TinyTag \<Rightarrow> string option" where
  "render_simple ref tags = map_option (\<lambda>ps. concat (map (piece_text tags) ps)) (scan False [] ref)"

definition load_tags :: "string \<Rightarrow> TinyTag io" where
  "load_tags filepath w =
     (case read_file w filepath of
        None \<Rightarrow> (Inl OSError, w)
      | Some content \<Rightarrow> (tinytag w content, w))"

text \<open>The tags go into \<^verbatim>\<open>render\<close> as they are; the result is returned unchecked.\<close>

definition load_target_template :: "TinyTag \<Rightarrow> string \<Rightarrow> string io" where
  "load_target_template tags ref w =
     (case render_simple ref tags of
        Some target \<Rightarrow> (Inr target, w)
      | None \<Rightarrow> (jinja_other w ref tags, w))"

definition TrackConverter_init :: "nat \<Rightarrow> string \<Rightarrow> TrackConverter io" where
  "TrackConverter_init config filepath =
     seq (Logger_init ''TrackConverter'' config) (\<lambda>slog.
     seq (load_tags filepath) (\<lambda>tags.
     seq (\<lambda>w. load_target_template tags (sort_mask (heap w config)) w) (\<lambda>target.
     pure (Inr \<lparr>tc_slog = slog, local_path = filepath, tc_tags = tags, target_path = target\<rparr>))))"

subsection \<open>The name of a cached file\<close>

text \<open>
  \<^verbatim>\<open>uuid.uuid5\<close> is the SHA-1 digest of the namespace's sixteen bytes followed by the name,
  cut to sixteen bytes, with the version and variant bits set. Bytes and 32-bit words are
  natural numbers here, reduced modulo \<open>2 ^ 32\<close> where the hash wraps around.
\<close>

definition rotl32 :: "nat \<Rightarrow> nat \<Rightarrow> nat" where
  "rotl32 n x = (x * 2 ^ n) mod 4294967296 + x div 2 ^ (32 - n)"

definition sha1_f :: "nat \<Rightarrow> nat \<Rightarrow> nat \<Rightarrow> nat \<Rightarrow> nat" where
  "sha1_f i b c d =
     (if i < 20 then or (and b c) (and (4294967295 - b) d)
      else if i < 40 then xor (xor b c) d
      else if i < 60 then or (or (and b c) (and b d)) (and c d)
      else xor (xor b c) d)"

definition sha1_k :: "nat \<Rightarrow> nat" where
  "sha1_k i =
     (if i < 20 then 0x5A827999 else if i < 40 then 0x6ED9EBA1
      else if i < 60 then 0x8F1BBCDC else 0xCA62C1D6)"

text \<open>
  The rounds of one block. \<open>ws\<close> holds the sixteen most recent words of the message
  schedule, the word of round \<open>i\<close> first.
\<close>

fun sha1_rounds ::
  "nat \<Rightarrow> nat \<Rightarrow> nat list \<Rightarrow> nat \<times> nat \<times> nat \<times> nat \<times> nat \<Rightarrow> nat \<times> nat \<times> nat \<times> nat \<times> nat" where
  "sha1_rounds 0 i ws s = s"
| "sha1_rounds (Suc n) i ws (a, b, c, d, e) =
     sha1_rounds n (Suc i)
       (tl ws @ [rotl32 1 (xor (xor (xor (ws ! 13) (ws ! 8)) (ws ! 2)) (ws ! 0))])
       ((rotl32 5 a + sha1_f i b c d + e + sha1_k i + ws ! 0) mod 4294967296,
        a, rotl32 30 b, c, d)"

definition sha1_compress ::
  "nat \<times> nat \<times> nat \<times> nat \<times> nat \<Rightarrow> nat list \<Rightarrow> nat \<times> nat \<times> nat \<times> nat \<times> nat" where
  "sha1_compress h blk =
     (case h of (h0, h1, h2, h3, h4) \<Rightarrow>
        (case sha1_rounds 80 0 blk h of (a, b, c, d, e) \<Rightarrow>
           ((h0 + a) mod 4294967296, (h1 + b) mod 4294967296, (h2 + c) mod 4294967296,
            (h3 + d) mod 4294967296, (h4 + e) mod 4294967296)))"

definition sha1_pad :: "nat list \<Rightarrow> nat list" where
  "sha1_pad m =
     m @ [128] @ replicate ((119 - length m mod 64) mod 64) 0 @
     map (\<lambda>i. (8 * length m) div 256 ^ (7 - i) mod 256) [0..<8]"

fun be_words :: "nat list \<Rightarrow> nat list" where
  "be_words (a # b # c # d # rest) = (((a * 256 + b) * 256 + c) * 256 + d) # be_words rest"
| "be_words _ = []"

fun blocks :: "nat \<Rightarrow> nat list \<Rightarrow> nat list list" where
  "blocks 0 ws = []"
| "blocks (Suc k) ws = take 16 ws # blocks k (drop 16 ws)"

definition word_bytes :: "nat \<Rightarrow> nat list" where
  "word_bytes x = [x div 16777216 mod 256, x div 65536 mod 256, x div 256 mod 256, x mod 256]"

definition sha1 :: "nat list \<Rightarrow> nat list" where
  "sha1 m =
     (let ws = be_words (sha1_pad m) in
      case foldl sha1_compress (0x67452301, 0xEFCDAB89, 0x98BADCFE, 0x10325476, 0xC3D2E1F0)
             (blocks (length ws div 16) ws) of
        (a, b, c, d, e) \<Rightarrow>
          word_bytes a @ word_bytes b @ word_bytes c @ word_bytes d @ word_bytes e)"

text \<open>\<^verbatim>\<open>uuid.NAMESPACE_OID\<close> is \<^verbatim>\<open>6ba7b812-9dad-11d1-80b4-00c04fd430c8\<close>.\<close>

definition NAMESPACE_OID :: "nat list" where
  "NAMESPACE_OID =
     [0x6b, 0xa7, 0xb8, 0x12, 0x9d, 0xad, 0x11, 0xd1, 0x80, 0xb4, 0x00, 0xc0, 0x4f, 0xd4, 0x30, 0xc8]"

definition uuid5 :: "nat list \<Rightarrow> string \<Rightarrow> nat list" where
  "uuid5 namespace name =
     (let h = take 16 (sha1 (namespace @ map of_char name))
      in h[6 := h ! 6 mod 16 + 80, 8 := h ! 8 mod 64 + 128])"

definition hex_digit :: "nat \<Rightarrow> char" where
  "hex_digit n = (if n < 10 then char_of (48 + n) else char_of (87 + n))"

definition hex :: "nat list \<Rightarrow> string" where
  "hex bs = concat (map (\<lambda>b. [hex_digit (b div 16 mod 16), hex_digit (b mod 16)]) bs)"

text \<open>\<^verbatim>\<open>str\<close> of a UUID: its 32 hexadecimal digits in groups of 8, 4, 4, 4 and 12.\<close>

definition str_uuid :: "nat list \<Rightarrow> string" where
  "str_uuid u =
     hex (take 4 u) @ ''-'' @ hex (take 2 (drop 4 u)) @ ''-'' @ hex (take 2 (drop 6 u)) @ ''-'' @
     hex (take 2 (drop 8 u)) @ ''-'' @ hex (drop 10 u)"

subsection \<open>The helpers of Main\<close>

fun download_all_tracks :: "nat \<Rightarrow> S3io \<Rightarrow> string list \<Rightarrow> unit io" where
  "download_all_tracks config client [] w = (Inr (), w)"
| "download_all_tracks config client (track # rest) w =
     (case download_file client track
             (cache_dir (heap w config) @ ''/'' @ str_uuid (uuid5 NAMESPACE_OID track) @ ''.mp3'') w of
        (Inl e, w') \<Rightarrow> (Inl e, w')
      | (Inr _, w') \<Rightarrow> download_all_tracks config client rest w')"

fun upload_all_tracks :: "S3io \<Rightarrow> TrackConverter list \<Rightarrow> unit io" where
  "upload_all_tracks client [] w = (Inr (), w)"
| "upload_all_tracks client (track # rest) w =
     (case upload_file client (local_path track) (target_path track) w of
        (Inl e, w') \<Rightarrow> (Inl e, w')
      | (Inr _, w') \<Rightarrow> upload_all_tracks client rest w')"

fun delete_source_tracks :: "S3io \<Rightarrow> string list \<Rightarrow> unit io" where
  "delete_source_tracks client [] w = (Inr (), w)"
| "delete_source_tracks client (track # rest) w =
     (case delete_file client track w of
        (Inl e, w') \<Rightarrow> (Inl e, w')
      | (Inr _, w') \<Rightarrow> delete_source_tracks client rest w')"

text \<open>The loop of \<^verbatim>\<open>slurp_cache\<close> over the file names found in the cache.\<close>

fun slurp_loop ::
  "nat \<Rightarrow> nat \<Rightarrow> TrackConverter list \<Rightarrow> string list \<Rightarrow> TrackConverter list io" where
  "slurp_loop config cacheconf sorted_tracks [] w = (Inr sorted_tracks, w)"
| "slurp_loop config cacheconf sorted_tracks (track # rest) w =
     (case TrackConverter_init config (cache_dir (heap w cacheconf) @ ''/'' @ track) w of
        (Inl e, w') \<Rightarrow> (Inl e, w')
      | (Inr converted, w') \<Rightarrow>
          slurp_loop config cacheconf (sorted_tracks @ [converted]) rest w')"

text \<open>
  \<^verbatim>\<open>cacheconf = config\<close> copies the reference, not the object: the assignment to
  \<^verbatim>\<open>cacheconf.ingestion_mode\<close> changes the one \<^verbatim>\<open>Config\<close> object that \<^verbatim>\<open>Main\<close> holds.
\<close>

definition slurp_cache :: "Logger \<Rightarrow> nat \<Rightarrow> TrackConverter list io" where
  "slurp_cache slog config w =
     (let cacheconf = config;
          w1 = w\<lparr>heap := (heap w)(cacheconf := (heap w cacheconf)\<lparr>ingestion_mode := ''cache''\<rparr>)\<rparr>
      in seq (TrackLister_init cacheconf None) (\<lambda>cache_lister w2.
           slurp_loop config cacheconf [] (ingest_cache w2 (cache_dir (heap w2 cacheconf))) w2) w1)"

text \<open>
  \<^verbatim>\<open>shutil.rmtree\<close> with \<^verbatim>\<open>ignore_errors=False\<close>: the directory is gone, or an exception is
  raised; a directory that does not exist is an error.
\<close>

definition rmtree :: "string \<Rightarrow> unit io" where
  "rmtree p w =
     (case rmtree_fault w of
        Some (e, residue) \<Rightarrow> (Inl e, w\<lparr>fs := (fs w)(p := residue)\<rparr>)
      | None \<Rightarrow>
          if fs w p = None then (Inl OSError, w)
          else (Inr (), w\<lparr>fs := (fs w)(p := None)\<rparr>))"

subsection \<open>Main\<close>

definition Main :: "unit io" where
  "Main =
     seq Config_init (\<lambda>config.
     seq (Logger_init ''sortie'' config) (\<lambda>slog.
     seq (S3io_init config) (\<lambda>client.
     seq (\<lambda>w. if ingestion_mode (heap w config) = ''dynamic''
               then TrackLister_init config (Some client) w
               else TrackLister_init config None w) (\<lambda>source_lister.
     seq (\<lambda>w. if \<not> ingestion_mode (heap w config) = ''cache''
               then download_all_tracks config client (tracks source_lister) w
               else (Inr (), w)) (\<lambda>_.
     seq (slurp_cache slog config) (\<lambda>cache_list.
     seq (upload_all_tracks client cache_list) (\<lambda>_.
     seq (\<lambda>w. if clean_up (heap w config) \<and> \<not> ingestion_mode (heap w config) = ''cache''
               then delete_source_tracks client (tracks source_lister) w
               else (Inr (), w)) (\<lambda>_.
     seq (\<lambda>w. if \<not> persistent_cache (heap w config)
               then rmtree (cache_dir (heap w config)) w
               else (Inr (), w)) (\<lambda>_.
     pure (Inr ()))))))))))"

section \<open>Example worlds\<close>

text \<open>
  Concrete surroundings for the examples below: a configuration file with every key, one
  AWS profile, a manifest with one mp3 and one text file, a bucket listing of three keys, a
  store that refuses nothing, and files whose tags are A, B and C.
\<close>

definition demo_parser ::
  "string \<Rightarrow> string \<Rightarrow> string \<Rightarrow> string \<Rightarrow> string \<Rightarrow> string \<Rightarrow> string \<Rightarrow> string option" where
  "demo_parser mode to_file template cleanup persistent header key =
     map_of
       [((''aws'', ''environment''), ''default''),
        ((''bucket'', ''name''), ''tunes''),
        ((''logging'', ''log_to_file''), to_file),
        ((''logging'', ''logging_level''), ''2''),
        ((''logging'', ''log_file''), ''sortie.log''),
        ((''ingestion'', ''mode''), mode),
        ((''ingestion'', ''track_list''), ''tracks.json''),
        ((''cache'', ''directory''), ''cache''),
        ((''targeting'', ''sort_mask''), template),
        ((''targeting'', ''clean_up''), cleanup),
        ((''cache'', ''persistent''), persistent)]
       (header, key)"

definition demo_config :: "string \<Rightarrow> Config" where
  "demo_config mode =
     \<lparr>environment = ''default'', bucket = ''tunes'', log_to_file = True, max_logging_level = 2,
      log_file = Some ''sortie.log'', ingestion_mode = mode, track_list = Some ''tracks.json'',
      cache_dir = ''cache'', sort_mask = ''{{artist}}/{{album}}/{{title}}.mp3'',
      clean_up = True, persistent_cache = False\<rparr>"

definition demo_world :: "(string \<Rightarrow> string \<Rightarrow> string option) \<Rightarrow> Config \<Rightarrow> world" where
  "demo_world parser c =
     \<lparr>conf_file = Some (Inr parser),
      py_int = (\<lambda>s. if s = ''2'' then Some 2 else None),
      mkdir_fault = None,
      profiles = [''default''],
      manifest = (\<lambda>p. if p = ''tracks.json''
                       then Inr (JObj [(''input'', JArr [JStr ''music/01.mp3'', JStr ''music/notes.txt''])])
                       else Inl OSError),
      listing = [Some [''a/'', ''a/track.mp3'', ''b/note.txt'']],
      fault = (\<lambda>cs c. None),
      tinytag = (\<lambda>content. Inr \<lparr>artist = Some ''A'', album = Some ''B'', title = Some ''C''\<rparr>),
      jinja_other = (\<lambda>ref tags. Inl (OtherError ''TemplateSyntaxError'')),
      rmtree_fault = None,
      heap = (\<lambda>r. c),
      next_ref = 0,
      fs = (\<lambda>p. None),
      objects = (\<lambda>k. if k = ''music/01.mp3'' \<or> k = ''a/track.mp3'' then Some ''ID3'' else None),
      trace = []\<rparr>"

definition demo_logger :: "string \<Rightarrow> Logger" where
  "demo_logger name =
     \<lparr>mask_name = name, verbosity = 2, logger_to_file = True, logger_file = ''sortie.log''\<rparr>"

definition demo_client :: S3io where
  "demo_client = \<lparr>s3_config = 0, s3_slog = demo_logger ''S3 Orchestrator''\<rparr>"

text \<open>A store that refuses every upload, as it does for a user without the permission.\<close>

definition deny_uploads :: "call list \<Rightarrow> call \<Rightarrow> exn option" where
  "deny_uploads cs c = (case c of Upload f b k \<Rightarrow> Some ClientError | _ \<Rightarrow> None)"

text \<open>The tags of a file that has none of the three.\<close>

definition no_tags :: TinyTag where
  "no_tags = \<lparr>artist = None, album = None, title = None\<rparr>"

text \<open>The pieces of a template put together again, with \<open>r\<close> in the place of every reference.\<close>

fun subst_all :: "string \<Rightarrow> piece list \<Rightarrow> string" where
  "subst_all r [] = []"
| "subst_all r (Text s # ps) = s @ subst_all r ps"
| "subst_all r (Var v # ps) = r @ subst_all r ps"

text \<open>
  A run from a configuration file: the mode and the template as given, the three switches
  as \<^verbatim>\<open>yes\<close> or \<^verbatim>\<open>no\<close>; \<open>parsed_config\<close> is the object that \<open>Config_init\<close> builds from that
  file, and \<open>loaded_world\<close> the world it leaves.
\<close>

definition yesno :: "bool \<Rightarrow> string" where
  "yesno b = (if b then ''yes'' else ''no'')"

definition run_world :: "string \<Rightarrow> bool \<Rightarrow> string \<Rightarrow> bool \<Rightarrow> bool \<Rightarrow> world" where
  "run_world mode to_file template cleanup persistent =
     demo_world (demo_parser mode (yesno to_file) template (yesno cleanup) (yesno persistent))
       (demo_config mode)"

definition parsed_config :: "string \<Rightarrow> bool \<Rightarrow> string \<Rightarrow> bool \<Rightarrow> bool \<Rightarrow> Config" where
  "parsed_config mode to_file template cleanup persistent =
     \<lparr>environment = ''default'', bucket = ''tunes'', log_to_file = to_file, max_logging_level = 2,
      log_file = (if to_file then Some ''sortie.log'' else None), ingestion_mode = mode,
      track_list = (if mode = ''track_list'' then Some ''tracks.json'' else None),
      cache_dir = ''cache'', sort_mask = template,
      clean_up = cleanup, persistent_cache = persistent\<rparr>"

definition loaded_world :: "string \<Rightarrow> bool \<Rightarrow> string \<Rightarrow> bool \<Rightarrow> bool \<Rightarrow> world" where
  "loaded_world mode to_file template cleanup persistent =
     run_world mode to_file template cleanup persistent
       \<lparr>heap := (\<lambda>r. demo_config mode)(0 := parsed_config mode to_file template cleanup persistent),
        next_ref := Suc 0,
        fs := (\<lambda>p. None)(''cache'' \<mapsto> Dir [] [])\<rparr>"



text \<open>The name of the cached copy of \<^verbatim>\<open>music/01.mp3\<close>.\<close>

definition demo_name :: string where
  "demo_name = str_uuid (uuid5 NAMESPACE_OID ''music/01.mp3'') @ ''.mp3''"

text \<open>
  A loaded configuration in mode \<^verbatim>\<open>cache\<close> with an empty template, and one file in the cache
  directory.
\<close>

definition staged_world :: world where
  "staged_world =
     loaded_world ''cache'' True [] True False
       \<lparr>fs := (\<lambda>p. None)(''cache'' \<mapsto> Dir [(''x.mp3'', ''ID3'')] [])\<rparr>"

section \<open>Properties\<close>

subsection \<open>Enumeration\<close>

lemma endswith_suffix: "endswith s suf \<longleftrightarrow> suffix suf s"
  unfolding endswith_def suffix_def
  by (metis append_eq_conv_conj append_take_drop_id diff_add_inverse2 le_add2 length_append length_drop)

lemma s3_loop_filter:
  "s3_loop found contents =
     found @ filter (\<lambda>item. \<not> endswith item ''/'' \<and> endswith item ''.mp3'') contents"
  by (induction contents arbitrary: found) auto

lemma collect_pages_all: "collect_pages files (map Some pages) = Inr (files @ concat pages)"
  by (induction pages arbitrary: files) auto

lemma ingest_s3_listing:
  assumes "fault w (trace w) (ListObjects (bucket (heap w (s3_config orch)))) = None"
      and "listing w = map Some pages"
  shows "ingest_s3 (Some orch) w =
     (Inr (filter (\<lambda>key. \<not> endswith key ''/'' \<and> endswith key ''.mp3'') (concat pages)),
      w\<lparr>trace := trace w @ [ListObjects (bucket (heap w (s3_config orch)))]\<rparr>)"
  using assms
  by (simp add: ingest_s3_def list_bucket_contents_def issue_def seq_def pure_def
      collect_pages_all s3_loop_filter)

text \<open>
  Claim C5, as amended. In mode \<^verbatim>\<open>dynamic\<close>, when every page of the listing has a
  \<^verbatim>\<open>Contents\<close> entry (\<open>listing w = map Some pages\<close>: the bucket is not empty) and the store
  does not refuse the listing, the tracks of the lister are the keys of the bucket listing,
  in the order of the listing, without those that end in \<^verbatim>\<open>/\<close> and those that do not end in
  \<^verbatim>\<open>.mp3\<close>. The listing \<^verbatim>\<open>["a/", "a/track.mp3", "b/note.txt"]\<close> of the witness yields
  \<^verbatim>\<open>["a/track.mp3"]\<close>. The listing of an empty bucket is left out: see the counterexample
  below.
\<close>

theorem dynamic_mode_enumerates_mp3_keys:
  assumes "log_file (heap w config) = Some lf"
      and "ingestion_mode (heap w config) = ''dynamic''"
      and "fault w (trace w) (ListObjects (bucket (heap w (s3_config orch)))) = None"
      and "listing w = map Some pages"
  shows "\<exists>lister. TrackLister_init config (Some orch) w =
           (Inr lister, w\<lparr>trace := trace w @ [ListObjects (bucket (heap w (s3_config orch)))]\<rparr>)
         \<and> tracks lister =
             filter (\<lambda>key. \<not> endswith key ''/'' \<and> endswith key ''.mp3'') (concat pages)"
  using assms(1,2) ingest_s3_listing [OF assms(3,4)]
  by (simp add: TrackLister_init_def Logger_init_def seq_def pure_def)

theorem dynamic_mode_enumerates_mp3_keys_witness:
  "\<exists>lister. TrackLister_init 0 (Some demo_client)
               (demo_world (\<lambda>h k. None) (demo_config ''dynamic'')) =
           (Inr lister, demo_world (\<lambda>h k. None) (demo_config ''dynamic'')
                          \<lparr>trace := [ListObjects ''tunes'']\<rparr>)
         \<and> tracks lister = [''a/track.mp3'']"
  using dynamic_mode_enumerates_mp3_keys
    [of "demo_world (\<lambda>h k. None) (demo_config ''dynamic'')" 0 "''sortie.log''" demo_client
        "[[''a/'', ''a/track.mp3'', ''b/note.txt'']]"]
  by (simp add: demo_world_def demo_config_def demo_client_def endswith_def)

text \<open>
  Claim C5, as stated, fails on an empty bucket. Its listing is one page without a
  \<^verbatim>\<open>Contents\<close> entry; the claim's enumerated set would be empty, but \<^verbatim>\<open>page['Contents']\<close>
  raises \<^verbatim>\<open>KeyError\<close>, which \<open>list_bucket_contents\<close> does not catch, and no lister is
  constructed.
\<close>

theorem dynamic_mode_empty_bucket_raises_KeyError:
  "fst (TrackLister_init 0 (Some demo_client)
          (demo_world (\<lambda>h k. None) (demo_config ''dynamic'')\<lparr>listing := [None]\<rparr>)) =
     Inl KeyError"
  by (simp add: TrackLister_init_def Logger_init_def seq_def pure_def ingest_s3_def
      list_bucket_contents_def issue_def demo_world_def demo_config_def demo_client_def)

lemma trackfile_loop_filter:
  "trackfile_loop found (map JStr entries) =
     Inr (found @ filter (\<lambda>track. endswith track ''.mp3'') entries)"
  by (induction entries arbitrary: found) auto

lemma ingest_trackfile_manifest:
  assumes "manifest w filepath = Inr (JObj kvs)"
      and "map_of (rev kvs) ''input'' = Some (JArr (map JStr entries))"
  shows "ingest_trackfile filepath w =
           (Inr (filter (\<lambda>track. endswith track ''.mp3'') entries), w)"
  using assms
  by (simp add: ingest_trackfile_def py_getitem_def py_iter_def trackfile_loop_filter)

text \<open>
  Claim C6. In mode \<^verbatim>\<open>track_list\<close> the tracks of the lister are the entries of the manifest's
  \<^verbatim>\<open>input\<close> array that end in \<^verbatim>\<open>.mp3\<close>, in the order of the manifest.
\<close>

theorem track_list_mode_enumerates_mp3_entries:
  assumes "log_file (heap w config) = Some lf"
      and "ingestion_mode (heap w config) = ''track_list''"
      and "track_list (heap w config) = Some filepath"
      and "manifest w filepath = Inr (JObj kvs)"
      and "map_of (rev kvs) ''input'' = Some (JArr (map JStr entries))"
  shows "\<exists>lister. TrackLister_init config orchestrator w = (Inr lister, w)
         \<and> tracks lister = filter (\<lambda>track. endswith track ''.mp3'') entries"
  using assms(1,2,3) ingest_trackfile_manifest [OF assms(4,5)]
  by (simp add: TrackLister_init_def Logger_init_def seq_def pure_def)

theorem track_list_mode_enumerates_mp3_entries_witness:
  "\<exists>lister. TrackLister_init 0 None (demo_world (\<lambda>h k. None) (demo_config ''track_list'')) =
           (Inr lister, demo_world (\<lambda>h k. None) (demo_config ''track_list''))
         \<and> tracks lister = [''music/01.mp3'']"
  using track_list_mode_enumerates_mp3_entries
    [of "demo_world (\<lambda>h k. None) (demo_config ''track_list'')" 0 "''sortie.log''" "''tracks.json''"
        "[(''input'', JArr [JStr ''music/01.mp3'', JStr ''music/notes.txt''])]"
        "[''music/01.mp3'', ''music/notes.txt'']" None]
  by (simp add: demo_world_def demo_config_def endswith_def)

subsection \<open>Errors of the store\<close>

lemma download_file_client_error:
  assumes "key \<noteq> []"
      and "fault w (trace w) (Download (bucket (heap w (s3_config self))) key lf) = Some ClientError"
  shows "download_file self key lf w =
           (Inl InvalidPermissions,
            w\<lparr>trace := trace w @ [Download (bucket (heap w (s3_config self))) key lf]\<rparr>)"
  using assms by (simp add: download_file_def client_download_def seq_def issue_def)

text \<open>
  Claim C8. When the store refuses an upload with a \<^verbatim>\<open>ClientError\<close>, \<open>upload_file\<close> raises that
  \<^verbatim>\<open>ClientError\<close> itself, not \<^verbatim>\<open>InvalidPermissions\<close> as \<open>download_file\<close> does in the same
  situation (lemma \<open>download_file_client_error\<close>).
\<close>

theorem upload_file_raises_client_error:
  assumes "key \<noteq> []"
      and "fault w (trace w) (Upload lf (bucket (heap w (s3_config self))) key) = Some ClientError"
  shows "upload_file self lf key w =
           (Inl ClientError,
            w\<lparr>trace := trace w @ [Upload lf (bucket (heap w (s3_config self))) key]\<rparr>)"
  using assms by (simp add: upload_file_def client_upload_def seq_def issue_def)

theorem upload_file_raises_client_error_witness:
  "upload_file demo_client ''cache/x.mp3'' ''A/B/C.mp3''
     (demo_world (\<lambda>h k. None) (demo_config ''cache'')\<lparr>fault := deny_uploads\<rparr>) =
   (Inl ClientError,
    demo_world (\<lambda>h k. None) (demo_config ''cache'')
      \<lparr>fault := deny_uploads, trace := [Upload ''cache/x.mp3'' ''tunes'' ''A/B/C.mp3'']\<rparr>)"
  using upload_file_raises_client_error
    [of "''A/B/C.mp3''" "demo_world (\<lambda>h k. None) (demo_config ''cache'')\<lparr>fault := deny_uploads\<rparr>"
        "''cache/x.mp3''" demo_client]
  by (simp add: demo_world_def demo_config_def demo_client_def deny_uploads_def)

subsection \<open>Rendering the target path\<close>

lemma subst_all_piece_text:
  "concat (map (piece_text no_tags) ps) = subst_all ''None'' ps"
proof (induction ps)
  case Nil
  show ?case by simp
next
  case (Cons p ps)
  then show ?case by (cases p) (simp_all add: no_tags_def py_str_def lookup_var_def)
qed

lemma scan_demo:
  "scan False [] ''{{artist}}/{{album}}/{{title}}.mp3'' =
     Some [Text [], Var ''artist'', Text ''/'', Var ''album'', Text ''/'', Var ''title'',
           Text ''.mp3'']"
  by (simp add: var_name_def strip_spaces_def)

text \<open>
  Claim C3, as amended. For a file with none of the three tags, a template of literal text
  and references to \<^verbatim>\<open>artist\<close>, \<^verbatim>\<open>album\<close> and \<^verbatim>\<open>title\<close> renders without an exception, as
  the template with the text \<^verbatim>\<open>None\<close> in the place of every reference.
\<close>

theorem absent_tags_render_as_None:
  assumes "scan False [] ref = Some ps"
  shows "load_target_template no_tags ref w = (Inr (subst_all ''None'' ps), w)"
  using assms by (simp add: load_target_template_def render_simple_def subst_all_piece_text)

theorem absent_tags_render_as_None_witness:
  "load_target_template no_tags ''{{artist}}/{{album}}/{{title}}.mp3''
     (demo_world (\<lambda>h k. None) (demo_config ''cache'')) =
   (Inr ''None/None/None.mp3'', demo_world (\<lambda>h k. None) (demo_config ''cache''))"
  using absent_tags_render_as_None
    [OF scan_demo, of "demo_world (\<lambda>h k. None) (demo_config ''cache'')"]
  by simp

text \<open>
  Claim C3, as stated, fails: with no tags the template \<^verbatim>\<open>{{artist}}/{{album}}/{{title}}.mp3\<close>
  renders as \<^verbatim>\<open>None/None/None.mp3\<close>, not as \<^verbatim>\<open>//.mp3\<close>.
\<close>

theorem absent_tags_do_not_render_empty:
  "fst (load_target_template no_tags ''{{artist}}/{{album}}/{{title}}.mp3''
         (demo_world (\<lambda>h k. None) (demo_config ''cache''))) = Inr ''None/None/None.mp3''
   \<and> fst (load_target_template no_tags ''{{artist}}/{{album}}/{{title}}.mp3''
         (demo_world (\<lambda>h k. None) (demo_config ''cache''))) \<noteq> Inr ''//.mp3''"
  unfolding load_target_template_def render_simple_def scan_demo
  by (simp add: no_tags_def py_str_def lookup_var_def)

subsection \<open>Construction\<close>

lemma seqE:
  assumes "seq m f w = (Inr b, w')"
  obtains a w1 where "m w = (Inr a, w1)" and "f a w1 = (Inr b, w')"
  using assms by (auto simp: seq_def split: prod.splits sum.splits)

lemma pureE:
  assumes "pure r w = (Inr a, w')"
  obtains "r = Inr a" and "w' = w"
  using assms by (simp add: pure_def)

lemma Config_init_result:
  assumes "Config_init w = (Inr config, w1)"
  shows "(log_file (heap w1 config) = None \<longleftrightarrow> \<not> log_to_file (heap w1 config))
         \<and> trace w1 = trace w \<and> fault w1 = fault w"
proof (cases "conf_file w")
  case None
  with assms show ?thesis by (simp add: Config_init_def)
next
  case (Some r)
  show ?thesis
  proof (cases r)
    case (Inl e)
    with Some assms show ?thesis by (simp add: Config_init_def)
  next
    case (Inr parser)
    with Some assms show ?thesis
      apply (simp add: Config_init_def)
      apply (elim seqE pureE)
      apply (simp add: new_config_def mkdir_def pure_def split: if_splits sum.splits option.splits)
      apply auto
      done
  qed
qed

lemma str2bool_yesno: "str2bool (yesno b) = Inr b"
  by (simp add: str2bool_def yesno_def lower_char_def)

lemma Config_init_demo:
  "Config_init (run_world mode tf template cu pc) = (Inr 0, loaded_world mode tf template cu pc)"
  by (simp add: Config_init_def seq_def pure_def sane_get_def demo_parser_def demo_world_def
      str2bool_yesno to_int_def mkdir_def new_config_def parsed_config_def run_world_def
      loaded_world_def)

text \<open>
  Claim C10. A \<open>Logger\<close> reads \<open>log_file\<close> without looking at \<open>log_to_file\<close>, and \<open>Config_init\<close>
  assigns \<open>log_file\<close> only if \<open>log_to_file\<close> holds. So when the configuration is loaded with
  \<open>log_to_file\<close> false, constructing a \<open>Logger\<close> of any name raises \<^verbatim>\<open>AttributeError\<close>, \<open>Main\<close>
  ends with that exception in the world that \<open>Config_init\<close> left, and no call has been made
  on the store.
\<close>

theorem log_to_file_false_fails_at_construction:
  assumes "Config_init w = (Inr config, w1)"
      and "\<not> log_to_file (heap w1 config)"
  shows "Logger_init name config w1 = (Inl AttributeError, w1)
         \<and> Main w = (Inl AttributeError, w1) \<and> trace w1 = trace w"
  using assms Config_init_result [OF assms(1)]
  by (simp add: Main_def seq_def Logger_init_def)

theorem log_to_file_false_fails_at_construction_witness:
  "Logger_init ''sortie'' 0 (loaded_world ''track_list'' False ''{{title}}.mp3'' True False) =
     (Inl AttributeError, loaded_world ''track_list'' False ''{{title}}.mp3'' True False)
   \<and> Main (run_world ''track_list'' False ''{{title}}.mp3'' True False) =
       (Inl AttributeError, loaded_world ''track_list'' False ''{{title}}.mp3'' True False)
   \<and> trace (loaded_world ''track_list'' False ''{{title}}.mp3'' True False) =
       trace (run_world ''track_list'' False ''{{title}}.mp3'' True False)"
  using log_to_file_false_fails_at_construction
    [OF Config_init_demo, of "''track_list''" False "''{{title}}.mp3''" True False "''sortie''"]
  by (simp add: loaded_world_def parsed_config_def)

subsection \<open>Deleting the source tracks\<close>





















subsection \<open>A whole run\<close>

lemma dirname_join:
  assumes "CHR ''/'' \<notin> set n"
  shows "dirname (d @ CHR ''/'' # n) = d"
proof -
  have "dropWhile (\<lambda>c. c \<noteq> CHR ''/'') (rev n @ CHR ''/'' # rev d) = CHR ''/'' # rev d"
    using assms by (subst dropWhile_append2) auto
  then show ?thesis by (simp add: dirname_def)
qed

lemma basename_join:
  assumes "CHR ''/'' \<notin> set n"
  shows "basename (d @ CHR ''/'' # n) = n"
proof -
  have "takeWhile (\<lambda>c. c \<noteq> CHR ''/'') (rev n @ CHR ''/'' # rev d) = rev n"
    using assms by (subst takeWhile_append2) auto
  then show ?thesis by (simp add: basename_def)
qed

lemma endswith_append: "endswith (x @ s) s"
  by (simp add: endswith_def)

lemma hex_digit_no_slash: "n < 16 \<Longrightarrow> hex_digit n \<noteq> CHR ''/''"
  by (auto simp: hex_digit_def char_of_eq_iff take_bit_eq_mod)

lemma hex_no_slash: "CHR ''/'' \<notin> set (hex bs)"
  by (induction bs)
     (simp_all add: hex_def hex_digit_no_slash hex_digit_no_slash [THEN not_sym])

lemma str_uuid_no_slash: "CHR ''/'' \<notin> set (str_uuid u)"
  using hex_no_slash by (simp add: str_uuid_def)

lemma demo_name_no_slash: "CHR ''/'' \<notin> set demo_name"
  using str_uuid_no_slash by (simp add: demo_name_def)

lemma demo_name_paths:
  "dirname (CHR ''c'' # CHR ''a'' # CHR ''c'' # CHR ''h'' # CHR ''e'' # CHR ''/'' # demo_name) = ''cache''"
  "basename (CHR ''c'' # CHR ''a'' # CHR ''c'' # CHR ''h'' # CHR ''e'' # CHR ''/'' # demo_name) = demo_name"
  "endswith demo_name ''.mp3''"
  using dirname_join [OF demo_name_no_slash, of "''cache''"]
        basename_join [OF demo_name_no_slash, of "''cache''"]
        endswith_append [of "str_uuid (uuid5 NAMESPACE_OID ''music/01.mp3'')" "''.mp3''"]
  by (simp_all add: demo_name_def)


lemma demo_endswith:
  "endswith ''music/01.mp3'' ''.mp3''" "\<not> endswith ''music/notes.txt'' ''.mp3''"
  by (simp_all add: endswith_def)

lemma demo_name_fold: "str_uuid (uuid5 NAMESPACE_OID ''music/01.mp3'') @ ''.mp3'' = demo_name"
  by (simp add: demo_name_def)

lemma Main_track_list_run:
  "(case Main (run_world ''track_list'' True ''{{artist}}/{{album}}/{{title}}.mp3'' True False) of
      (r, w') \<Rightarrow>
        r = Inr ()
        \<and> trace w' = [Download ''tunes'' ''music/01.mp3'' (''cache/'' @ demo_name),
                       Upload (''cache/'' @ demo_name) ''tunes'' ''A/B/C.mp3'']
        \<and> objects w' ''music/01.mp3'' = Some ''ID3'')"
  apply (simp only: Main_def seq_def Config_init_demo)
  by (simp add: seq_def pure_def loaded_world_def run_world_def
      demo_world_def parsed_config_def Logger_init_def S3io_init_def TrackLister_init_def
      ingest_trackfile_def py_getitem_def py_iter_def demo_endswith download_file_def
      client_download_def issue_def write_file_def demo_name_paths demo_name_fold
      ingest_cache_def slurp_cache_def Let_def TrackConverter_init_def load_tags_def
      read_file_def load_target_template_def render_simple_def scan_demo var_name_def
      strip_spaces_def py_str_def lookup_var_def upload_file_def client_upload_def rmtree_def)

text \<open>
  Claim C1 does not hold of the code. The run below is in mode \<^verbatim>\<open>track_list\<close> with \<open>clean_up\<close>
  set; the manifest names \<^verbatim>\<open>music/01.mp3\<close> and \<^verbatim>\<open>music/notes.txt\<close>. It completes, having
  downloaded and uploaded the one track, and makes no \<open>Delete\<close> call: the source object
  \<^verbatim>\<open>music/01.mp3\<close> is still in the bucket. \<open>slurp_cache\<close> has set the mode of the one \<open>Config\<close>
  object to \<^verbatim>\<open>cache\<close>, so the test of \<open>Main\<close> before \<open>delete_source_tracks\<close> fails (lemma
  \<open>Main_deletes\<close>: no run makes a \<open>Delete\<close> call).
\<close>

theorem clean_up_run_makes_no_delete_call:
  "fst (Main (run_world ''track_list'' True ''{{artist}}/{{album}}/{{title}}.mp3'' True False)) =
     Inr ()
   \<and> trace (snd (Main (run_world ''track_list'' True ''{{artist}}/{{album}}/{{title}}.mp3''
                        True False))) =
       [Download ''tunes'' ''music/01.mp3'' (''cache/'' @ demo_name),
        Upload (''cache/'' @ demo_name) ''tunes'' ''A/B/C.mp3'']
   \<and> objects (snd (Main (run_world ''track_list'' True ''{{artist}}/{{album}}/{{title}}.mp3''
                          True False))) ''music/01.mp3'' = Some ''ID3''"
  using Main_track_list_run
  by (cases "Main (run_world ''track_list'' True ''{{artist}}/{{album}}/{{title}}.mp3'' True False)")
     simp

subsection \<open>Publishing\<close>

lemma upload_all_tracks_append:
  "upload_all_tracks client (xs @ ys) w =
     (case upload_all_tracks client xs w of
        (Inl e, w') \<Rightarrow> (Inl e, w')
      | (Inr u, w') \<Rightarrow> upload_all_tracks client ys w')"
  by (induction xs arbitrary: w) (auto split: prod.splits sum.splits)

text \<open>
  Claim C7, as amended. A staged file whose template renders to the empty string is
  converted without an exception, with an empty \<open>target_path\<close>; the script checks nothing.
  When the uploads of the staged files before it have succeeded, \<open>upload_all_tracks\<close> makes
  the upload call for it with the empty key, and the run ends with the exception of the
  client, which refuses an empty key.
\<close>

theorem empty_render_reaches_upload:
  assumes "log_file (heap w config) = Some lf"
      and "read_file w filepath = Some content"
      and "tinytag w content = Inr tags"
      and "render_simple (sort_mask (heap w config)) tags = Some []"
      and "upload_all_tracks client pre w = (Inr (), w1)"
  shows "\<exists>t. TrackConverter_init config filepath w = (Inr t, w)
           \<and> local_path t = filepath \<and> target_path t = []
           \<and> upload_all_tracks client (pre @ t # post) w =
               (Inl ParamValidationError,
                w1\<lparr>trace := trace w1 @
                   [Upload filepath (bucket (heap w1 (s3_config client))) []]\<rparr>)"
  using assms
  by (simp add: TrackConverter_init_def seq_def pure_def Logger_init_def load_tags_def
      load_target_template_def upload_all_tracks_append upload_file_def client_upload_def)

theorem empty_render_reaches_upload_witness:
  "\<exists>t. TrackConverter_init 0 ''cache/x.mp3'' staged_world = (Inr t, staged_world)
     \<and> local_path t = ''cache/x.mp3'' \<and> target_path t = []
     \<and> upload_all_tracks demo_client [t] staged_world =
         (Inl ParamValidationError,
          staged_world\<lparr>trace := [Upload ''cache/x.mp3'' ''tunes'' []]\<rparr>)"
  using empty_render_reaches_upload
    [of staged_world 0 "''sortie.log''" "''cache/x.mp3''" "''ID3''"
        "\<lparr>artist = Some ''A'', album = Some ''B'', title = Some ''C''\<rparr>"
        demo_client "[]" staged_world "[]"]
  by (simp add: staged_world_def loaded_world_def run_world_def demo_world_def parsed_config_def
      demo_client_def read_file_def dirname_def basename_def render_simple_def)

lemma Main_empty_template_run:
  "(case Main (run_world ''track_list'' True [] True False) of
      (r, w') \<Rightarrow>
        r = Inl ParamValidationError
        \<and> trace w' = [Download ''tunes'' ''music/01.mp3'' (''cache/'' @ demo_name),
                       Upload (''cache/'' @ demo_name) ''tunes'' []])"
  apply (simp only: Main_def seq_def Config_init_demo)
  by (simp add: seq_def pure_def loaded_world_def run_world_def
      demo_world_def parsed_config_def Logger_init_def S3io_init_def TrackLister_init_def
      ingest_trackfile_def py_getitem_def py_iter_def demo_endswith download_file_def
      client_download_def issue_def write_file_def demo_name_paths demo_name_fold
      ingest_cache_def slurp_cache_def Let_def TrackConverter_init_def load_tags_def
      read_file_def load_target_template_def render_simple_def
      upload_file_def client_upload_def rmtree_def)

text \<open>
  Claim C7, as stated, fails: with an empty template the staged copy of \<^verbatim>\<open>music/01.mp3\<close>
  reaches the upload step with an empty \<open>target_path\<close>, and the upload call is made with the
  empty key. No check of the script stops the run; the exception is the client's.
\<close>

theorem empty_target_path_reaches_upload_call:
  "fst (Main (run_world ''track_list'' True [] True False)) = Inl ParamValidationError
   \<and> trace (snd (Main (run_world ''track_list'' True [] True False))) =
       [Download ''tunes'' ''music/01.mp3'' (''cache/'' @ demo_name),
        Upload (''cache/'' @ demo_name) ''tunes'' []]"
  using Main_empty_template_run
  by (cases "Main (run_world ''track_list'' True [] True False)") simp

end
